theory Spec2Isabelle
  imports Complex_Main "HOL-Library.AList" "HOL-Library.Multiset" "HOL-Library.Log_Nat"
begin

section \<open>Values, errors and the built-in operations the calculator uses\<close>

text \<open>
  The calculator of \<^verbatim>\<open>models/calculation.py\<close> works on plain dictionaries as they come
  from the forms, the rate card and the saved project file. A value is one of the
  JSON-like shapes below. A dictionary is the list of its items in insertion order, with
  string keys; an array holds strings (the only arrays of a line item are the material
  option names).

  Numbers: Python's \<^verbatim>\<open>int\<close> is \<^typ>\<open>int\<close>. A Python \<^verbatim>\<open>float\<close> is idealised as an exact
  rational: rounding, overflow and the values \<^verbatim>\<open>inf\<close> and \<^verbatim>\<open>nan\<close> are not part of this
  model. Characters are the code points below 256.
\<close>

datatype pyval =
    PNone
  | PBool bool
  | PInt int
  | PFloat rat
  | PStr string
  | PList "string list"
  | PDict "(string \<times> pyval) list"

type_synonym dict = "(string \<times> pyval) list"

text \<open>
  The exceptions that the modelled code can raise. \<open>NonFinite\<close> is no exception of the
  source: it marks the one place where Python goes on with \<^verbatim>\<open>inf\<close> or \<^verbatim>\<open>nan\<close>
  (\<^verbatim>\<open>float("inf")\<close>, \<^verbatim>\<open>float("nan")\<close>), a value this model does not have, so the model
  stops there instead of inventing a number.
\<close>

datatype error =
  ValueError | TypeError | AttributeError | KeyError | IndexError | OverflowError | NonFinite

subsection \<open>Truthiness, \<^verbatim>\<open>or\<close>, \<^verbatim>\<open>dict.get\<close>\<close>

fun truthy :: "pyval \<Rightarrow> bool" where
  "truthy PNone = False"
| "truthy (PBool b) = b"
| "truthy (PInt n) = (n \<noteq> 0)"
| "truthy (PFloat r) = (r \<noteq> 0)"
| "truthy (PStr s) = (s \<noteq> [])"
| "truthy (PList xs) = (xs \<noteq> [])"
| "truthy (PDict d) = (d \<noteq> [])"

definition py_or :: "pyval \<Rightarrow> pyval \<Rightarrow> pyval" where
  "py_or a b = (if truthy a then a else b)"

definition dict_get :: "dict \<Rightarrow> string \<Rightarrow> pyval \<Rightarrow> pyval" where
  "dict_get d k dflt = (case map_of d k of None \<Rightarrow> dflt | Some v \<Rightarrow> v)"

text \<open>\<^verbatim>\<open>x.get(k, dflt)\<close> on an arbitrary value: only a dictionary has the method.\<close>

fun py_get :: "pyval \<Rightarrow> string \<Rightarrow> pyval \<Rightarrow> error + pyval" where
  "py_get (PDict d) k dflt = Inr (dict_get d k dflt)"
| "py_get _ k dflt = Inl AttributeError"

subsection \<open>Strings: \<^verbatim>\<open>split\<close>, \<^verbatim>\<open>strip\<close>, \<^verbatim>\<open>lower\<close>\<close>

text \<open>\<^verbatim>\<open>s.split(sep)\<close> for a one-character separator: never empty, \<^verbatim>\<open>"".split(",") == [""]\<close>.\<close>

fun split_on :: "char \<Rightarrow> string \<Rightarrow> string list" where
  "split_on sep [] = [[]]"
| "split_on sep (c # cs) =
     (if c = sep then [] # split_on sep cs
      else (case split_on sep cs of
              [] \<Rightarrow> [[c]]
            | w # ws \<Rightarrow> (c # w) # ws))"

text \<open>\<^verbatim>\<open>s.split(sep, 1)\<close> for a string that contains \<open>sep\<close>: the parts before and after
  the first occurrence.\<close>

definition split_first :: "char \<Rightarrow> string \<Rightarrow> string \<times> string" where
  "split_first sep s = (takeWhile (\<lambda>c. c \<noteq> sep) s, drop 1 (dropWhile (\<lambda>c. c \<noteq> sep) s))"

text \<open>The characters below 256 for which \<^verbatim>\<open>str.isspace\<close> holds; \<^verbatim>\<open>str.strip()\<close> removes them.\<close>

definition is_space :: "char \<Rightarrow> bool" where
  "is_space c \<longleftrightarrow> (of_char c :: nat) \<in> {9, 10, 11, 12, 13, 28, 29, 30, 31, 32, 133, 160}"

definition strip :: "string \<Rightarrow> string" where
  "strip s = rev (dropWhile is_space (rev (dropWhile is_space s)))"

definition lower_char :: "char \<Rightarrow> char" where
  "lower_char c =
     (let n = (of_char c :: nat)
      in if (65 \<le> n \<and> n \<le> 90) \<or> (192 \<le> n \<and> n \<le> 222 \<and> n \<noteq> 215)
         then char_of (n + 32) else c)"

definition lower :: "string \<Rightarrow> string" where
  "lower s = map lower_char s"

subsection \<open>\<^verbatim>\<open>float(...)\<close>\<close>

text \<open>
  \<^verbatim>\<open>float(s)\<close> on a string: surrounding whitespace is dropped (here the separators
  28 to 31 do not count), then an optional sign and either a decimal numeral
  (digits, optional point, optional exponent; an underscore may stand between two digits)
  or one of the words \<^verbatim>\<open>inf\<close>, \<^verbatim>\<open>infinity\<close>, \<^verbatim>\<open>nan\<close> in any case. Anything else raises
  ValueError.
\<close>

definition is_float_space :: "char \<Rightarrow> bool" where
  "is_float_space c \<longleftrightarrow> (of_char c :: nat) \<in> {9, 10, 11, 12, 13, 32, 133, 160}"

definition is_digit :: "char \<Rightarrow> bool" where
  "is_digit c \<longleftrightarrow> 48 \<le> (of_char c :: nat) \<and> (of_char c :: nat) \<le> 57"

definition digit_val :: "char \<Rightarrow> nat" where
  "digit_val c = of_char c - 48"

definition digits_val :: "string \<Rightarrow> nat" where
  "digits_val ds = foldl (\<lambda>n c. 10 * n + digit_val c) 0 ds"

text \<open>Every underscore stands directly between two digits.\<close>

fun underscores_ok :: "char option \<Rightarrow> string \<Rightarrow> bool" where
  "underscores_ok prev [] = True"
| "underscores_ok prev (c # cs) =
     (if c = CHR ''_''
      then (case prev of None \<Rightarrow> False | Some p \<Rightarrow> is_digit p)
           \<and> (case cs of [] \<Rightarrow> False | d # _ \<Rightarrow> is_digit d)
           \<and> underscores_ok (Some c) cs
      else underscores_ok (Some c) cs)"

text \<open>An optional sign: the factor and the rest of the text.\<close>

fun take_sign :: "string \<Rightarrow> rat \<times> string" where
  "take_sign [] = (1, [])"
| "take_sign (c # cs) =
     (if c = CHR ''+'' then (1, cs) else if c = CHR ''-'' then (- 1, cs) else (1, c # cs))"

text \<open>The exponent part: empty, or \<^verbatim>\<open>e\<close>/\<^verbatim>\<open>E\<close>, an optional sign and at least one digit.\<close>

definition exponent_val :: "string \<Rightarrow> rat option" where
  "exponent_val s =
     (case s of
        [] \<Rightarrow> Some 1
      | c # cs \<Rightarrow>
          if c = CHR ''e'' \<or> c = CHR ''E'' then
            (let (sg, ds) = take_sign cs
             in if ds \<noteq> [] \<and> list_all is_digit ds
                then Some (if sg = 1 then 10 ^ digits_val ds else 1 / 10 ^ digits_val ds)
                else None)
          else None)"

text \<open>An unsigned decimal numeral without underscores.\<close>

definition decimal_val :: "string \<Rightarrow> rat option" where
  "decimal_val s =
     (let ip = takeWhile is_digit s;
          r1 = dropWhile is_digit s;
          has_point = (r1 \<noteq> [] \<and> hd r1 = CHR ''.'');
          r2 = (if has_point then tl r1 else r1);
          fp = (if has_point then takeWhile is_digit r2 else []);
          r3 = (if has_point then dropWhile is_digit r2 else r2)
      in if ip = [] \<and> fp = [] then None
         else (case exponent_val r3 of
                 None \<Rightarrow> None
               | Some e \<Rightarrow>
                   Some ((of_nat (digits_val ip) + of_nat (digits_val fp) / 10 ^ length fp) * e)))"

definition float_of_str :: "string \<Rightarrow> error + rat" where
  "float_of_str s =
     (let t = rev (dropWhile is_float_space (rev (dropWhile is_float_space s)));
          (sg, body) = take_sign t
      in if lower body \<in> {''inf'', ''infinity'', ''nan''} then Inl NonFinite
         else if \<not> underscores_ok None t then Inl ValueError
         else (case decimal_val (filter (\<lambda>c. c \<noteq> CHR ''_'') body) of
                 None \<Rightarrow> Inl ValueError
               | Some r \<Rightarrow> Inr (sg * r)))"

fun py_float :: "pyval \<Rightarrow> error + rat" where
  "py_float PNone = Inl TypeError"
| "py_float (PBool b) = Inr (if b then 1 else 0)"
| "py_float (PInt n) = Inr (of_int n)"
| "py_float (PFloat r) = Inr r"
| "py_float (PStr s) = float_of_str s"
| "py_float (PList xs) = Inl TypeError"
| "py_float (PDict d) = Inl TypeError"

subsection \<open>Membership, subscripting and multiplication on arbitrary values\<close>

fun is_substr :: "string \<Rightarrow> string \<Rightarrow> bool" where
  "is_substr s [] = (s = [])"
| "is_substr s (c # cs) = (take (length s) (c # cs) = s \<or> is_substr s cs)"

text \<open>\<^verbatim>\<open>x in c\<close>. A dictionary needs a hashable \<open>x\<close> and has string keys only; an array of
  strings compares by equality; a string wants a string on the left; nothing else is a
  container.\<close>

fun py_contains :: "pyval \<Rightarrow> pyval \<Rightarrow> error + bool" where
  "py_contains (PList xs) (PDict d) = Inl TypeError"
| "py_contains (PDict x) (PDict d) = Inl TypeError"
| "py_contains (PStr s) (PDict d) = Inr (s \<in> set (map fst d))"
| "py_contains _ (PDict d) = Inr False"
| "py_contains (PStr s) (PList xs) = Inr (s \<in> set xs)"
| "py_contains _ (PList xs) = Inr False"
| "py_contains (PStr s) (PStr t) = Inr (is_substr s t)"
| "py_contains _ (PStr t) = Inl TypeError"
| "py_contains _ _ = Inl TypeError"

text \<open>\<^verbatim>\<open>xs[i]\<close> on a sequence, negative indices counting from the end.\<close>

definition py_index :: "'a list \<Rightarrow> int \<Rightarrow> error + 'a" where
  "py_index xs i =
     (if 0 \<le> i \<and> i < int (length xs) then Inr (xs ! nat i)
      else if i < 0 \<and> - int (length xs) \<le> i then Inr (xs ! nat (int (length xs) + i))
      else Inl IndexError)"

text \<open>\<^verbatim>\<open>c[x]\<close>.\<close>

fun py_getitem :: "pyval \<Rightarrow> pyval \<Rightarrow> error + pyval" where
  "py_getitem (PDict d) (PStr s) = (case map_of d s of None \<Rightarrow> Inl KeyError | Some v \<Rightarrow> Inr v)"
| "py_getitem (PDict d) (PList xs) = Inl TypeError"
| "py_getitem (PDict d) (PDict x) = Inl TypeError"
| "py_getitem (PDict d) _ = Inl KeyError"
| "py_getitem (PList xs) (PInt i) = map_sum id PStr (py_index xs i)"
| "py_getitem (PList xs) (PBool b) = map_sum id PStr (py_index xs (if b then 1 else 0))"
| "py_getitem (PStr t) (PInt i) = map_sum id (\<lambda>c. PStr [c]) (py_index t i)"
| "py_getitem (PStr t) (PBool b) = map_sum id (\<lambda>c. PStr [c]) (py_index t (if b then 1 else 0))"
| "py_getitem _ _ = Inl TypeError"

text \<open>\<^verbatim>\<open>v * f\<close> for a float \<open>f\<close>: a number gives a float, everything else raises.\<close>

fun mul_float :: "pyval \<Rightarrow> rat \<Rightarrow> error + rat" where
  "mul_float (PBool b) f = Inr ((if b then 1 else 0) * f)"
| "mul_float (PInt n) f = Inr (of_int n * f)"
| "mul_float (PFloat r) f = Inr (r * f)"
| "mul_float _ f = Inl TypeError"

section \<open>The pricing engine: \<^verbatim>\<open>Calculator.calculate_item_amount\<close>\<close>

text \<open>\<^verbatim>\<open>float(d.get(k, 0) or 0)\<close>, the way every numeric field is read.\<close>

definition float_field :: "dict \<Rightarrow> string \<Rightarrow> error + rat" where
  "float_field d k = py_float (py_or (dict_get d k (PInt 0)) (PInt 0))"

text \<open>The material block (source lines 37 to 52): the running total after it.\<close>

definition material_step :: "dict \<Rightarrow> pyval \<Rightarrow> rat \<Rightarrow> rat \<Rightarrow> rat \<Rightarrow> rat \<Rightarrow> error + rat" where
  "material_step item uom length' height quantity base_amount =
     (case map_of item ''material'' of
        None \<Rightarrow> Inr base_amount
      | Some m \<Rightarrow>
          (case py_get m ''selected'' PNone of
             Inl e \<Rightarrow> Inl e
           | Inr selected_material \<Rightarrow>
               if \<not> truthy selected_material then Inr base_amount
               else
                 (case py_get m ''price_additions'' (PDict []) of
                    Inl e \<Rightarrow> Inl e
                  | Inr price_additions \<Rightarrow>
                      (case py_contains selected_material price_additions of
                         Inl e \<Rightarrow> Inl e
                       | Inr False \<Rightarrow> Inr (base_amount + 0)
                       | Inr True \<Rightarrow>
                           (case py_getitem price_additions selected_material of
                              Inl e \<Rightarrow> Inl e
                            | Inr p \<Rightarrow>
                                if uom = PStr ''SFT'' then
                                  (case mul_float p length' of
                                     Inl e \<Rightarrow> Inl e
                                   | Inr x \<Rightarrow> Inr (base_amount + x * height * quantity))
                                else if uom = PStr ''RFT'' then
                                  (case mul_float p length' of
                                     Inl e \<Rightarrow> Inl e
                                   | Inr x \<Rightarrow> Inr (base_amount + x * quantity))
                                else
                                  (case mul_float p quantity of
                                     Inl e \<Rightarrow> Inl e
                                   | Inr x \<Rightarrow> Inr (base_amount + x)))))))"

text \<open>The loop over \<^verbatim>\<open>add_ons.items()\<close> (source lines 60 to 77).\<close>

fun add_on_loop :: "pyval \<Rightarrow> rat \<Rightarrow> rat \<Rightarrow> rat \<Rightarrow> dict \<Rightarrow> rat \<Rightarrow> error + rat" where
  "add_on_loop uom length' height quantity [] add_on_cost = Inr add_on_cost"
| "add_on_loop uom length' height quantity ((add_on_name, add_on_info) # rest) add_on_cost =
     (case py_get add_on_info ''selected'' (PBool False) of
        Inl e \<Rightarrow> Inl e
      | Inr sel \<Rightarrow>
          if \<not> truthy sel then add_on_loop uom length' height quantity rest add_on_cost
          else
            (case py_get add_on_info ''rate_per_unit'' (PInt 0) of
               Inl e \<Rightarrow> Inl e
             | Inr r \<Rightarrow>
                 (case py_float (py_or r (PInt 0)) of
                    Inl e \<Rightarrow> Inl e
                  | Inr add_on_rate \<Rightarrow>
                      add_on_loop uom length' height quantity rest
                        (if uom = PStr ''SFT'' then
                           add_on_cost + add_on_rate * length' * height * quantity
                         else if uom = PStr ''RFT'' then
                           add_on_cost + add_on_rate * length' * quantity
                         else add_on_cost + add_on_rate * quantity))))"

text \<open>The loop over the names of a legacy add-on string (source lines 84 to 93).\<close>

fun legacy_loop :: "pyval \<Rightarrow> rat \<Rightarrow> rat \<Rightarrow> rat \<Rightarrow> string list \<Rightarrow> rat \<Rightarrow> rat" where
  "legacy_loop uom length' height quantity [] add_on_cost = add_on_cost"
| "legacy_loop uom length' height quantity (add_on # rest) add_on_cost =
     legacy_loop uom length' height quantity rest
       (if add_on = ''profile door'' then
          (if uom = PStr ''SFT'' then add_on_cost + 150 * length' * height * quantity
           else add_on_cost)
        else if add_on = ''lights'' then
          (if uom = PStr ''SFT'' then add_on_cost + 250 * length' * height * quantity
           else add_on_cost)
        else add_on_cost)"

text \<open>The add-on block (source lines 55 to 93): the \<^verbatim>\<open>if\<close> for a mapping, the \<^verbatim>\<open>elif\<close>
  for a non-empty string, nothing otherwise.\<close>

definition add_on_step :: "dict \<Rightarrow> pyval \<Rightarrow> rat \<Rightarrow> rat \<Rightarrow> rat \<Rightarrow> error + rat" where
  "add_on_step item uom length' height quantity =
     (case map_of item ''add_ons'' of
        Some (PDict add_ons) \<Rightarrow> add_on_loop uom length' height quantity add_ons 0
      | Some (PStr s) \<Rightarrow>
          if s \<noteq> [] then
            Inr (legacy_loop uom length' height quantity
                   (map (\<lambda>x. lower (strip x)) (split_on CHR '','' s)) 0)
          else Inr 0
      | _ \<Rightarrow> Inr 0)"

definition calculate_item_amount :: "dict \<Rightarrow> error + rat" where
  "calculate_item_amount item =
     (let uom = dict_get item ''uom'' (PStr ''NOS'') in
      case float_field item ''length'' of Inl e \<Rightarrow> Inl e | Inr length' \<Rightarrow>
      case float_field item ''height'' of Inl e \<Rightarrow> Inl e | Inr height \<Rightarrow>
      case float_field item ''quantity'' of Inl e \<Rightarrow> Inl e | Inr quantity \<Rightarrow>
      case float_field item ''rate'' of Inl e \<Rightarrow> Inl e | Inr rate \<Rightarrow>
        (let base_amount =
               (if uom = PStr ''SFT'' then (length' * height) * quantity * rate
                else if uom = PStr ''RFT'' then length' * quantity * rate
                else if uom = PStr ''NOS'' then quantity * rate
                else quantity * rate)
         in case material_step item uom length' height quantity base_amount of
              Inl e \<Rightarrow> Inl e
            | Inr total_amount \<Rightarrow>
                (case add_on_step item uom length' height quantity of
                   Inl e \<Rightarrow> Inl e
                 | Inr add_on_cost \<Rightarrow> Inr (total_amount + add_on_cost))))"

section \<open>Rate-card extraction: \<^verbatim>\<open>parse_price_mapping\<close>, \<^verbatim>\<open>get_material_options_from_rate_card\<close>\<close>

text \<open>The loop over the comma-separated pairs (source lines 155 to 165). Only ValueError
  and TypeError are caught by the \<^verbatim>\<open>except\<close> clause. \<^verbatim>\<open>price_map[name] = price\<close> keeps
  the position of a key that is already there and appends a new one.\<close>

fun price_loop :: "string list \<Rightarrow> dict \<Rightarrow> error + dict" where
  "price_loop [] price_map = Inr price_map"
| "price_loop (pair # rest) price_map =
     (if CHR '':'' \<in> set pair then
        (let (name, price_str) = split_first CHR '':'' pair;
             name = strip name
         in case float_of_str (strip price_str) of
              Inr price \<Rightarrow> price_loop rest (AList.update name (PFloat price) price_map)
            | Inl ValueError \<Rightarrow> price_loop rest price_map
            | Inl TypeError \<Rightarrow> price_loop rest price_map
            | Inl e \<Rightarrow> Inl e)
      else price_loop rest price_map)"

fun parse_price_mapping :: "pyval \<Rightarrow> error + dict" where
  "parse_price_mapping (PStr price_string) =
     (if price_string = [] then Inr []
      else price_loop (split_on CHR '','' price_string) [])"
| "parse_price_mapping v = (if \<not> truthy v then Inr [] else Inl AttributeError)"

text \<open>The default surcharges, keyed by the lower-cased option name (source lines 203 to 217).\<close>

definition default_price :: "string \<Rightarrow> int" where
  "default_price option_lower =
     (if option_lower = ''laminate'' then 0
      else if option_lower = ''veneer'' then 500
      else if option_lower = ''pu'' then 800
      else if option_lower = ''acrylic'' then 600
      else if option_lower = ''premium'' then 400
      else if option_lower = ''texture'' then 200
      else 300)"

text \<open>The loop over \<^verbatim>\<open>options_list[1:]\<close> (source lines 196 to 217).\<close>

fun option_loop :: "string list \<Rightarrow> dict \<Rightarrow> dict \<Rightarrow> dict" where
  "option_loop [] material_prices price_additions = price_additions"
| "option_loop (option # rest) material_prices price_additions =
     option_loop rest material_prices
       (case map_of material_prices option of
          Some price \<Rightarrow> AList.update option price price_additions
        | None \<Rightarrow> AList.update option (PInt (default_price (lower option))) price_additions)"

definition material_result :: "string list \<Rightarrow> pyval \<Rightarrow> dict \<Rightarrow> dict" where
  "material_result material_options base_material price_additions =
     [(''options'', PList material_options),
      (''base_material'', base_material),
      (''price_additions'', PDict price_additions)]"

definition get_material_options_from_rate_card :: "dict \<Rightarrow> error + dict" where
  "get_material_options_from_rate_card rate_card_item =
     (case map_of rate_card_item ''material_options'' of
        None \<Rightarrow> Inr (material_result [] PNone [])
      | Some v \<Rightarrow>
          if \<not> truthy v then Inr (material_result [] PNone [])
          else
            (case v of
               PStr options_str \<Rightarrow>
                 (let options_list = map strip (split_on CHR '','' options_str)
                  in case options_list of
                       [] \<Rightarrow> Inr (material_result options_list PNone [])
                     | base_material # others \<Rightarrow>
                         (case (case map_of rate_card_item ''material_prices'' of
                                  None \<Rightarrow> Inr []
                                | Some mp \<Rightarrow>
                                    if truthy mp then parse_price_mapping mp else Inr []) of
                            Inl e \<Rightarrow> Inl e
                          | Inr material_prices \<Rightarrow>
                              Inr (material_result options_list (PStr base_material)
                                     (option_loop others material_prices
                                        [(base_material, PInt 0)]))))
             | _ \<Rightarrow> Inl AttributeError))"

section \<open>The aggregation engine\<close>

subsection \<open>Arithmetic on values\<close>

fun int_of :: "pyval \<Rightarrow> int option" where
  "int_of (PBool b) = Some (if b then 1 else 0)"
| "int_of (PInt n) = Some n"
| "int_of _ = None"

fun num_of :: "pyval \<Rightarrow> rat option" where
  "num_of (PBool b) = Some (if b then 1 else 0)"
| "num_of (PInt n) = Some (of_int n)"
| "num_of (PFloat r) = Some r"
| "num_of _ = None"

text \<open>\<^verbatim>\<open>a + b\<close>: two integers (or booleans) give an integer, a float on either side
  gives a float, two strings or two arrays are joined, anything else raises.\<close>

definition py_add :: "pyval \<Rightarrow> pyval \<Rightarrow> error + pyval" where
  "py_add a b =
     (case (int_of a, int_of b) of
        (Some i, Some j) \<Rightarrow> Inr (PInt (i + j))
      | _ \<Rightarrow>
          (case (num_of a, num_of b) of
             (Some x, Some y) \<Rightarrow> Inr (PFloat (x + y))
           | _ \<Rightarrow>
               (case (a, b) of
                  (PStr s, PStr t) \<Rightarrow> Inr (PStr (s @ t))
                | (PList xs, PList ys) \<Rightarrow> Inr (PList (xs @ ys))
                | _ \<Rightarrow> Inl TypeError)))"

text \<open>\<^verbatim>\<open>a - b\<close>: numbers only.\<close>

definition py_sub :: "pyval \<Rightarrow> pyval \<Rightarrow> error + pyval" where
  "py_sub a b =
     (case (int_of a, int_of b) of
        (Some i, Some j) \<Rightarrow> Inr (PInt (i - j))
      | _ \<Rightarrow>
          (case (num_of a, num_of b) of
             (Some x, Some y) \<Rightarrow> Inr (PFloat (x - y))
           | _ \<Rightarrow> Inl TypeError))"

subsection \<open>\<^verbatim>\<open>calculate_room_totals\<close>\<close>

text \<open>
  The keys of \<^verbatim>\<open>room_totals\<close> are whatever the items carry under \<^verbatim>\<open>"room"\<close>. Python
  looks a key up by hash and equality, where \<^verbatim>\<open>True == 1 == 1.0\<close>; arrays and
  dictionaries cannot be hashed. A key is therefore kept up to that equality.
\<close>

datatype pykey = KNone | KNum rat | KStr string

fun hash_key :: "pyval \<Rightarrow> error + pykey" where
  "hash_key PNone = Inr KNone"
| "hash_key (PBool b) = Inr (KNum (if b then 1 else 0))"
| "hash_key (PInt n) = Inr (KNum (of_int n))"
| "hash_key (PFloat r) = Inr (KNum r)"
| "hash_key (PStr s) = Inr (KStr s)"
| "hash_key (PList xs) = Inl TypeError"
| "hash_key (PDict d) = Inl TypeError"

type_synonym room_totals = "(pykey \<times> pyval) list"

fun room_loop :: "dict list \<Rightarrow> room_totals \<Rightarrow> error + room_totals" where
  "room_loop [] room_totals = Inr room_totals"
| "room_loop (item # rest) room_totals =
     (case map_of item ''room'' of
        None \<Rightarrow> Inl KeyError
      | Some room \<Rightarrow>
          (case map_of item ''amount'' of
             None \<Rightarrow> Inl KeyError
           | Some amount \<Rightarrow>
               (case hash_key room of
                  Inl e \<Rightarrow> Inl e
                | Inr k \<Rightarrow>
                    (let room_totals1 =
                           (if map_of room_totals k = None
                            then AList.update k (PInt 0) room_totals else room_totals)
                     in case map_of room_totals1 k of
                          None \<Rightarrow> Inl KeyError
                        | Some t \<Rightarrow>
                            (case py_add t amount of
                               Inl e \<Rightarrow> Inl e
                             | Inr t' \<Rightarrow> room_loop rest (AList.update k t' room_totals1))))))"

definition calculate_room_totals :: "dict list \<Rightarrow> error + room_totals" where
  "calculate_room_totals line_items = room_loop line_items []"

subsection \<open>\<^verbatim>\<open>calculate_grand_total\<close>\<close>

definition calculate_grand_total :: "pyval \<Rightarrow> pyval \<Rightarrow> pyval \<Rightarrow> error + pyval" where
  "calculate_grand_total subtotal gst_amount discount_amount =
     (case py_add subtotal gst_amount of
        Inl e \<Rightarrow> Inl e
      | Inr s \<Rightarrow> py_sub s discount_amount)"

section \<open>Notions used in the statements and proofs\<close>

subsection \<open>Line items as the aggregation sees them\<close>

text \<open>An item carries both keys that \<^verbatim>\<open>calculate_room_totals\<close> subscripts.\<close>

definition has_both :: "dict \<Rightarrow> bool" where
  "has_both item \<longleftrightarrow> map_of item ''room'' \<noteq> None \<and> map_of item ''amount'' \<noteq> None"

text \<open>Where an item carries a room it can be a dictionary key, and where it carries an
  amount it is a number, as the data model has them (a room name, a computed amount).\<close>

definition well_typed :: "dict \<Rightarrow> bool" where
  "well_typed item \<longleftrightarrow>
     (case map_of item ''room'' of
        None \<Rightarrow> True
      | Some room \<Rightarrow> (case hash_key room of Inl e \<Rightarrow> False | Inr k \<Rightarrow> True))
     \<and> (case map_of item ''amount'' of None \<Rightarrow> True | Some a \<Rightarrow> num_of a \<noteq> None)"

definition good :: "dict \<Rightarrow> bool" where
  "good item \<longleftrightarrow> has_both item \<and> well_typed item"

definition item_key :: "dict \<Rightarrow> pykey option" where
  "item_key item =
     (case map_of item ''room'' of
        None \<Rightarrow> None
      | Some room \<Rightarrow> (case hash_key room of Inl e \<Rightarrow> None | Inr k \<Rightarrow> Some k))"

definition item_amount :: "dict \<Rightarrow> pyval" where
  "item_amount item = dict_get item ''amount'' PNone"

text \<open>A running total is an integer or a float; \<open>nval\<close> is the value of a number.\<close>

fun is_total :: "pyval \<Rightarrow> bool" where
  "is_total (PInt n) = True"
| "is_total (PFloat r) = True"
| "is_total _ = False"

fun is_float :: "pyval \<Rightarrow> bool" where
  "is_float (PFloat r) = True"
| "is_float _ = False"

definition nval :: "pyval \<Rightarrow> rat" where
  "nval v = (case num_of v of Some r \<Rightarrow> r | None \<Rightarrow> 0)"

definition totals_inv :: "room_totals \<Rightarrow> bool" where
  "totals_inv rt \<longleftrightarrow> (\<forall>k v. map_of rt k = Some v \<longrightarrow> is_total v)"

text \<open>The total of a room so far, \<open>0\<close> for a room not yet seen.\<close>

definition cur :: "room_totals \<Rightarrow> pykey \<Rightarrow> pyval" where
  "cur rt k = (case map_of rt k of None \<Rightarrow> PInt 0 | Some t \<Rightarrow> t)"

subsection \<open>Line items as the pricing engine sees them\<close>

text \<open>No material is selected: there is no material block, or its \<^verbatim>\<open>selected\<close> entry is
  missing or falsy.\<close>

definition no_material_selected :: "dict \<Rightarrow> bool" where
  "no_material_selected item \<longleftrightarrow>
     (case map_of item ''material'' of
        None \<Rightarrow> True
      | Some (PDict m) \<Rightarrow> \<not> truthy (dict_get m ''selected'' PNone)
      | Some _ \<Rightarrow> False)"

text \<open>An entry of an add-on mapping that is not selected.\<close>

fun unselected :: "string \<times> pyval \<Rightarrow> bool" where
  "unselected (name, PDict info) = (\<not> truthy (dict_get info ''selected'' (PBool False)))"
| "unselected (name, _) = False"

text \<open>No add-ons: the key is missing, or it holds a mapping in which nothing is selected,
  an empty string, or a value that is neither a mapping nor a string.\<close>

definition no_add_ons :: "dict \<Rightarrow> bool" where
  "no_add_ons item \<longleftrightarrow>
     (case map_of item ''add_ons'' of
        None \<Rightarrow> True
      | Some (PDict add_ons) \<Rightarrow> list_all unselected add_ons
      | Some (PStr s) \<Rightarrow> s = []
      | Some _ \<Rightarrow> True)"

text \<open>A value that \<^verbatim>\<open>float(v or 0)\<close> accepts: anything falsy, a number, or a string
  that spells a finite decimal number.\<close>

fun numeric_like :: "pyval \<Rightarrow> bool" where
  "numeric_like PNone = True"
| "numeric_like (PBool b) = True"
| "numeric_like (PInt n) = True"
| "numeric_like (PFloat r) = True"
| "numeric_like (PStr s) = (s = [] \<or> (case float_of_str s of Inr r \<Rightarrow> True | Inl e \<Rightarrow> False))"
| "numeric_like (PList xs) = (xs = [])"
| "numeric_like (PDict d) = (d = [])"

text \<open>The material block of the data model: a mapping whose \<^verbatim>\<open>selected\<close> entry is
  missing, falsy or a string, and whose \<^verbatim>\<open>price_additions\<close> is a mapping that gives the
  selected name, if it lists it, a number.\<close>

definition material_ok :: "dict \<Rightarrow> bool" where
  "material_ok item \<longleftrightarrow>
     (case map_of item ''material'' of
        None \<Rightarrow> True
      | Some (PDict m) \<Rightarrow>
          (case dict_get m ''selected'' PNone of
             PStr s \<Rightarrow>
               s = [] \<or>
               (case dict_get m ''price_additions'' (PDict []) of
                  PDict pa \<Rightarrow> (case map_of pa s of None \<Rightarrow> True | Some p \<Rightarrow> num_of p \<noteq> None)
                | _ \<Rightarrow> False)
           | sel \<Rightarrow> \<not> truthy sel)
      | Some _ \<Rightarrow> False)"

text \<open>An entry of an add-on mapping of the data model: a mapping that is not selected,
  or whose \<^verbatim>\<open>rate_per_unit\<close> is numeric in the sense above.\<close>

fun add_on_ok :: "string \<times> pyval \<Rightarrow> bool" where
  "add_on_ok (name, PDict info) =
     (\<not> truthy (dict_get info ''selected'' (PBool False))
      \<or> numeric_like (dict_get info ''rate_per_unit'' PNone))"
| "add_on_ok (name, _) = False"

definition add_ons_ok :: "dict \<Rightarrow> bool" where
  "add_ons_ok item \<longleftrightarrow>
     (case map_of item ''add_ons'' of
        Some (PDict add_ons) \<Rightarrow> list_all add_on_ok add_ons
      | _ \<Rightarrow> True)"

definition line_item_shaped :: "dict \<Rightarrow> bool" where
  "line_item_shaped item \<longleftrightarrow>
     numeric_like (dict_get item ''length'' PNone)
     \<and> numeric_like (dict_get item ''height'' PNone)
     \<and> numeric_like (dict_get item ''quantity'' PNone)
     \<and> numeric_like (dict_get item ''rate'' PNone)
     \<and> material_ok item \<and> add_ons_ok item"

text \<open>The base quantity factor as the specification words it: the area for \<^verbatim>\<open>SFT\<close>, the
  length for \<^verbatim>\<open>RFT\<close>, and \<open>1\<close> for \<^verbatim>\<open>NOS\<close> and every other unit.\<close>

definition base_quantity_factor :: "pyval \<Rightarrow> rat \<Rightarrow> rat \<Rightarrow> rat" where
  "base_quantity_factor uom l h =
     (if uom = PStr ''SFT'' then l * h else if uom = PStr ''RFT'' then l else 1)"




subsection \<open>Price strings as the specification words them\<close>

text \<open>A segment is a well-formed \<^verbatim>\<open>name:number\<close> pair when it contains a colon and the
  text after its first colon, trimmed, is a number; it then stands for the trimmed name
  and that number.\<close>

definition well_formed_pair :: "string \<Rightarrow> (string \<times> pyval) option" where
  "well_formed_pair seg =
     (if CHR '':'' \<in> set seg then
        (case float_of_str (strip (snd (split_first CHR '':'' seg))) of
           Inr p \<Rightarrow> Some (strip (fst (split_first CHR '':'' seg)), PFloat p)
         | Inl e \<Rightarrow> None)
      else None)"

text \<open>The well-formed pairs of a price string, in the order of its comma-separated
  segments.\<close>

definition well_formed_pairs :: "string \<Rightarrow> (string \<times> pyval) list" where
  "well_formed_pairs s = List.map_filter well_formed_pair (split_on CHR '','' s)"

text \<open>A segment whose price is spelled \<^verbatim>\<open>inf\<close>, \<^verbatim>\<open>infinity\<close> or \<^verbatim>\<open>nan\<close>: Python keeps
  it with a non-finite float, which lies outside the exact arithmetic used here.\<close>

definition non_finite_price :: "string \<Rightarrow> bool" where
  "non_finite_price seg \<longleftrightarrow>
     CHR '':'' \<in> set seg
     \<and> float_of_str (strip (snd (split_first CHR '':'' seg))) = Inl NonFinite"

section \<open>Binary64 arithmetic\<close>

text \<open>
  The definitions above compute with exact rationals. Where rounding, overflow,
  \<^verbatim>\<open>inf\<close> or \<^verbatim>\<open>nan\<close> decide a property, the same source functions are modelled a second
  time over the values of a Python \<^verbatim>\<open>float\<close> (IEEE 754 binary64, round to nearest, ties
  to even): a finite value is the rational it denotes, the two zeros are one value.
\<close>

datatype fval = Fin rat | PosInf | NegInf | NaN

definition pow2 :: "int \<Rightarrow> rat" where
  "pow2 e = (if 0 \<le> e then 2 ^ nat e else 1 / 2 ^ nat (- e))"

text \<open>For \<open>x > 0\<close>: the exponent \<open>e\<close> with \<open>pow2 e \<le> x < pow2 (e + 1)\<close>, from the bit
  lengths of numerator and denominator.\<close>

definition ilog2 :: "rat \<Rightarrow> int" where
  "ilog2 x =
     (let d = bitlen (fst (quotient_of x)) - bitlen (snd (quotient_of x))
      in if pow2 d \<le> x then d else d - 1)"

text \<open>The nearest integer to \<open>m \<ge> 0\<close>, a tie going to the even neighbour.\<close>

definition round_half_even :: "rat \<Rightarrow> int" where
  "round_half_even m =
     (let n = \<lfloor>m\<rfloor>; f = m - of_int n
      in if f < 1 / 2 then n
         else if 1 / 2 < f then n + 1
         else if even n then n else n + 1)"

text \<open>
  Rounding a real result to binary64. A normal value has 53 significant bits; below
  \<open>pow2 (- 1022)\<close> the spacing stays \<open>pow2 (- 1074)\<close> (subnormal values, down to zero);
  a result that rounds to \<open>pow2 1024\<close> or beyond is infinite.
\<close>

definition fl_round :: "rat \<Rightarrow> fval" where
  "fl_round x =
     (if x = 0 then Fin 0
      else
        (let a = \<bar>x\<bar>;
             q = max (ilog2 a) (- 1022) - 52;
             r = of_int (round_half_even (a / pow2 q)) * pow2 q
         in if pow2 1024 \<le> r then (if 0 < x then PosInf else NegInf)
            else Fin (if 0 < x then r else - r)))"

fun fneg :: "fval \<Rightarrow> fval" where
  "fneg (Fin a) = Fin (- a)"
| "fneg PosInf = NegInf"
| "fneg NegInf = PosInf"
| "fneg NaN = NaN"

text \<open>\<^verbatim>\<open>x + y\<close> on floats.\<close>

fun fadd :: "fval \<Rightarrow> fval \<Rightarrow> fval" where
  "fadd (Fin a) (Fin b) = fl_round (a + b)"
| "fadd NaN y = NaN"
| "fadd x NaN = NaN"
| "fadd PosInf NegInf = NaN"
| "fadd NegInf PosInf = NaN"
| "fadd PosInf y = PosInf"
| "fadd NegInf y = NegInf"
| "fadd x PosInf = PosInf"
| "fadd x NegInf = NegInf"

text \<open>\<^verbatim>\<open>x * y\<close> on floats: an infinity times zero is \<^verbatim>\<open>nan\<close>, otherwise the sign of an
  infinite product is the product of the signs.\<close>

fun fmul :: "fval \<Rightarrow> fval \<Rightarrow> fval" where
  "fmul (Fin a) (Fin b) = fl_round (a * b)"
| "fmul NaN y = NaN"
| "fmul x NaN = NaN"
| "fmul (Fin a) PosInf = (if a = 0 then NaN else if 0 < a then PosInf else NegInf)"
| "fmul (Fin a) NegInf = (if a = 0 then NaN else if 0 < a then NegInf else PosInf)"
| "fmul PosInf (Fin b) = (if b = 0 then NaN else if 0 < b then PosInf else NegInf)"
| "fmul NegInf (Fin b) = (if b = 0 then NaN else if 0 < b then NegInf else PosInf)"
| "fmul PosInf PosInf = PosInf"
| "fmul PosInf NegInf = NegInf"
| "fmul NegInf PosInf = NegInf"
| "fmul NegInf NegInf = PosInf"

text \<open>\<^verbatim>\<open>float(n)\<close> for an integer: correctly rounded, OverflowError when the integer is
  too large for a float.\<close>

definition float_of_int :: "int \<Rightarrow> error + fval" where
  "float_of_int n =
     (case fl_round (of_int n) of
        Fin r \<Rightarrow> Inr (Fin r)
      | _ \<Rightarrow> Inl OverflowError)"

section \<open>Verified properties\<close>

subsection \<open>Grand total\<close>

text \<open>
  C6. For numbers \<open>subtotal\<close>, \<open>gst_amount\<close> and \<open>discount_amount\<close> (integers, booleans
  or floats, with values \<open>s\<close>, \<open>g\<close>, \<open>d\<close>), \<^verbatim>\<open>calculate_grand_total\<close> raises nothing and
  returns a number whose value is exactly \<open>s + g - d\<close>. There is no floor at zero: when
  the discount exceeds subtotal plus tax the returned value is negative.
\<close>

theorem calculate_grand_total_exact:
  assumes "num_of subtotal = Some s"
    and "num_of gst_amount = Some g"
    and "num_of discount_amount = Some d"
  shows "\<exists>v r. calculate_grand_total subtotal gst_amount discount_amount = Inr v
           \<and> num_of v = Some r \<and> r = s + g - d \<and> (s + g < d \<longrightarrow> r < 0)"
  using assms
  by (cases subtotal; cases gst_amount; cases discount_amount)
     (auto simp: calculate_grand_total_def py_add_def py_sub_def)

theorem calculate_grand_total_exact_witness:
  "num_of (PInt 100) = Some 100 \<and> num_of (PFloat 18) = Some 18 \<and> num_of (PInt 350) = Some 350
   \<and> (100 :: rat) + 18 < 350
   \<and> (\<exists>v r. calculate_grand_total (PInt 100) (PFloat 18) (PInt 350) = Inr v
          \<and> num_of v = Some r \<and> r = 100 + 18 - 350 \<and> r < 0)"
  using calculate_grand_total_exact [of "PInt 100" 100 "PFloat 18" 18 "PInt 350" 350]
  by simp

subsection \<open>Room totals\<close>

lemma py_add_total:
  assumes "is_total t" "num_of a = Some x"
  shows "\<exists>t'. py_add t a = Inr t' \<and> is_total t' \<and> is_float t' = (is_float t \<or> is_float a)
          \<and> nval t' = nval t + x"
  using assms by (cases t; cases a) (auto simp: py_add_def nval_def)

lemma py_add_not_num:
  assumes "is_total t" "num_of a = None"
  shows "py_add t a = Inl TypeError"
  using assms by (cases t; cases a) (auto simp: py_add_def)


lemma good_cases:
  assumes "good item"
  obtains room a k x where "map_of item ''room'' = Some room" "map_of item ''amount'' = Some a"
    "hash_key room = Inr k" "num_of a = Some x" "item_key item = Some k" "item_amount item = a"
  using assms
  by (auto simp: good_def has_both_def well_typed_def item_key_def item_amount_def dict_get_def
      split: option.splits sum.splits)

lemma room_loop_step:
  assumes "good item" "totals_inv rt"
  shows "\<exists>k x t' rt2. item_key item = Some k \<and> num_of (item_amount item) = Some x
           \<and> room_loop (item # rest) rt = room_loop rest rt2
           \<and> map_of rt2 = (map_of rt)(k \<mapsto> t') \<and> is_total t'
           \<and> is_float t' = (is_float (cur rt k) \<or> is_float (item_amount item))
           \<and> nval t' = nval (cur rt k) + x"
proof -
  from assms(1) obtain room a k x where g: "map_of item ''room'' = Some room"
    "map_of item ''amount'' = Some a" "hash_key room = Inr k" "num_of a = Some x"
    "item_key item = Some k" "item_amount item = a"
    by (rule good_cases)
  have tot: "is_total (cur rt k)"
    using assms(2) by (auto simp: cur_def totals_inv_def split: option.splits)
  from py_add_total[OF tot g(4)] obtain t' where t': "py_add (cur rt k) a = Inr t'"
    "is_total t'" "is_float t' = (is_float (cur rt k) \<or> is_float a)" "nval t' = nval (cur rt k) + x"
    by blast
  show ?thesis
  proof (cases "map_of rt k")
    case None
    then have "room_loop (item # rest) rt = room_loop rest (AList.update k t' (AList.update k (PInt 0) rt))"
      using g t' by (simp add: cur_def update_conv')
    moreover have "map_of (AList.update k t' (AList.update k (PInt 0) rt)) = (map_of rt)(k \<mapsto> t')"
      by (simp add: update_conv')
    ultimately show ?thesis using g t' by blast
  next
    case (Some t)
    then have "room_loop (item # rest) rt = room_loop rest (AList.update k t' rt)"
      using g t' by (simp add: cur_def)
    moreover have "map_of (AList.update k t' rt) = (map_of rt)(k \<mapsto> t')"
      by (simp add: update_conv')
    ultimately show ?thesis using g t' by blast
  qed
qed

lemma cur_upd:
  "map_of rt2 = (map_of rt)(k \<mapsto> t') \<Longrightarrow> cur rt2 k' = (if k' = k then t' else cur rt k')"
  by (simp add: cur_def)

lemma totals_inv_upd:
  "map_of rt2 = (map_of rt)(k \<mapsto> t') \<Longrightarrow> is_total t' \<Longrightarrow> totals_inv rt \<Longrightarrow> totals_inv rt2"
  by (simp add: totals_inv_def)

lemma nval_amount: "num_of (item_amount i) = Some x \<Longrightarrow> nval (item_amount i) = x"
  by (simp add: nval_def)

lemma room_loop_good:
  assumes "\<forall>i\<in>set xs. good i" "totals_inv rt"
  shows "\<exists>rt'. room_loop xs rt = Inr rt' \<and> totals_inv rt'
     \<and> (\<forall>k. (map_of rt' k = None) = (map_of rt k = None \<and> (\<forall>i\<in>set xs. item_key i \<noteq> Some k)))
     \<and> (\<forall>k. is_float (cur rt' k) =
              (is_float (cur rt k) \<or> (\<exists>i\<in>set xs. item_key i = Some k \<and> is_float (item_amount i))))
     \<and> (\<forall>k. nval (cur rt' k) =
              nval (cur rt k) + sum_list (map (\<lambda>i. nval (item_amount i)) (filter (\<lambda>i. item_key i = Some k) xs)))"
  using assms
proof (induction xs arbitrary: rt)
  case Nil
  then show ?case by simp
next
  case (Cons item rest)
  then have g: "good item" and gs: "\<forall>i\<in>set rest. good i" by simp_all
  from room_loop_step[OF g Cons.prems(2), of rest]
  obtain k x t' rt2 where s: "item_key item = Some k" "num_of (item_amount item) = Some x"
    "room_loop (item # rest) rt = room_loop rest rt2" "map_of rt2 = (map_of rt)(k \<mapsto> t')"
    "is_total t'" "is_float t' = (is_float (cur rt k) \<or> is_float (item_amount item))"
    "nval t' = nval (cur rt k) + x"
    by blast
  have inv2: "totals_inv rt2" using totals_inv_upd[OF s(4) s(5) Cons.prems(2)] .
  from Cons.IH[OF gs inv2] obtain rt' where r: "room_loop rest rt2 = Inr rt'" "totals_inv rt'"
    "\<forall>k. (map_of rt' k = None) = (map_of rt2 k = None \<and> (\<forall>i\<in>set rest. item_key i \<noteq> Some k))"
    "\<forall>k. is_float (cur rt' k) =
              (is_float (cur rt2 k) \<or> (\<exists>i\<in>set rest. item_key i = Some k \<and> is_float (item_amount i)))"
    "\<forall>k. nval (cur rt' k) =
              nval (cur rt2 k) + sum_list (map (\<lambda>i. nval (item_amount i)) (filter (\<lambda>i. item_key i = Some k) rest))"
    by blast
  have c: "\<And>k'. cur rt2 k' = (if k' = k then t' else cur rt k')" using cur_upd[OF s(4)] .
  have 1: "\<forall>k'. (map_of rt' k' = None) = (map_of rt k' = None \<and> (\<forall>i\<in>set (item # rest). item_key i \<noteq> Some k'))"
    using r(3) s(1) s(4) by auto
  have 2: "\<forall>k'. is_float (cur rt' k') =
              (is_float (cur rt k') \<or> (\<exists>i\<in>set (item # rest). item_key i = Some k' \<and> is_float (item_amount i)))"
    using r(4) c s(1) s(6) by auto
  have 3: "\<forall>k'. nval (cur rt' k') =
              nval (cur rt k') + sum_list (map (\<lambda>i. nval (item_amount i)) (filter (\<lambda>i. item_key i = Some k') (item # rest)))"
    using r(5) c s(1) s(7) nval_amount[OF s(2)] by auto
  show ?case using s(3) r(1) r(2) 1 2 3 by simp
qed

lemma room_loop_bad:
  assumes "\<exists>i\<in>set xs. \<not> good i" "totals_inv rt"
  shows "\<exists>e. room_loop xs rt = Inl e"
  using assms
proof (induction xs arbitrary: rt)
  case Nil
  then show ?case by simp
next
  case (Cons item rest)
  show ?case
  proof (cases "good item")
    case True
    from room_loop_step[OF True Cons.prems(2), of rest]
    obtain k t' rt2 where s: "room_loop (item # rest) rt = room_loop rest rt2"
      "map_of rt2 = (map_of rt)(k \<mapsto> t')" "is_total t'"
      by blast
    have "totals_inv rt2" using totals_inv_upd[OF s(2) s(3) Cons.prems(2)] .
    moreover have "\<exists>i\<in>set rest. \<not> good i" using Cons.prems(1) True by auto
    ultimately show ?thesis using Cons.IH s(1) by metis
  next
    case False
    show ?thesis
    proof (cases "map_of item ''room''")
      case None then show ?thesis by simp
    next
      case (Some room)
      note room = this
      show ?thesis
      proof (cases "map_of item ''amount''")
        case None then show ?thesis using room by simp
      next
        case (Some a)
        note am = this
        show ?thesis
        proof (cases "hash_key room")
          case (Inl e) then show ?thesis using room am by simp
        next
          case (Inr k)
          have na: "num_of a = None"
            using False room am Inr by (auto simp: good_def has_both_def well_typed_def)
          have tot: "is_total (cur rt k)"
            using Cons.prems(2) by (auto simp: cur_def totals_inv_def split: option.splits)
          have "py_add (cur rt k) a = Inl TypeError" using py_add_not_num[OF tot na] .
          then show ?thesis using room am Inr
            by (cases "map_of rt k") (auto simp: cur_def update_conv')
        qed
      qed
    qed
  qed
qed

lemma totals_inv_Nil: "totals_inv []"
  by (simp add: totals_inv_def)



lemma room_loop_key_error:
  assumes "\<forall>i\<in>set xs. has_both i \<longrightarrow> well_typed i" "\<exists>i\<in>set xs. \<not> has_both i" "totals_inv rt"
  shows "room_loop xs rt = Inl KeyError"
  using assms
proof (induction xs arbitrary: rt)
  case Nil
  then show ?case by simp
next
  case (Cons item rest)
  show ?case
  proof (cases "has_both item")
    case False
    then show ?thesis by (auto simp: has_both_def split: option.splits)
  next
    case True
    then have g: "good item" using Cons.prems(1) by (simp add: good_def)
    from room_loop_step[OF g Cons.prems(3), of rest]
    obtain k t' rt2 where s: "room_loop (item # rest) rt = room_loop rest rt2"
      "map_of rt2 = (map_of rt)(k \<mapsto> t')" "is_total t'"
      by blast
    have "totals_inv rt2" using totals_inv_upd[OF s(2) s(3) Cons.prems(3)] .
    moreover have "\<exists>i\<in>set rest. \<not> has_both i" using Cons.prems(2) True by auto
    moreover have "\<forall>i\<in>set rest. has_both i \<longrightarrow> well_typed i" using Cons.prems(1) by simp
    ultimately show ?thesis using Cons.IH s(1) by metis
  qed
qed



text \<open>
  C10. \<^verbatim>\<open>calculate_room_totals\<close> reads \<^verbatim>\<open>item["room"]\<close> and \<^verbatim>\<open>item["amount"]\<close> without
  defaults. It returns a mapping only when every item has both keys. For line items
  that, where they have both keys, carry a room that can be a dictionary key and an
  amount that is a number (as the data model has them), a list with an item that lacks
  either key raises KeyError, and a list whose items all have both keys returns a
  mapping.
\<close>

theorem calculate_room_totals_key_error:
  "((\<exists>m. calculate_room_totals line_items = Inr m) \<longrightarrow> (\<forall>i\<in>set line_items. has_both i))
   \<and> ((\<forall>i\<in>set line_items. has_both i \<longrightarrow> well_typed i) \<longrightarrow>
        ((\<exists>i\<in>set line_items. \<not> has_both i) \<longrightarrow> calculate_room_totals line_items = Inl KeyError)
        \<and> ((\<forall>i\<in>set line_items. has_both i) \<longrightarrow> (\<exists>m. calculate_room_totals line_items = Inr m)))"
proof (intro conjI impI)
  assume r: "\<exists>m. calculate_room_totals line_items = Inr m"
  show "\<forall>i\<in>set line_items. has_both i"
  proof (rule ccontr)
    assume "\<not> (\<forall>i\<in>set line_items. has_both i)"
    then have "\<exists>i\<in>set line_items. \<not> good i" by (auto simp: good_def)
    from room_loop_bad[OF this totals_inv_Nil] r show False
      by (auto simp: calculate_room_totals_def)
  qed
next
  assume "\<forall>i\<in>set line_items. has_both i \<longrightarrow> well_typed i" "\<exists>i\<in>set line_items. \<not> has_both i"
  then show "calculate_room_totals line_items = Inl KeyError"
    unfolding calculate_room_totals_def using totals_inv_Nil by (rule room_loop_key_error)
next
  assume "\<forall>i\<in>set line_items. has_both i \<longrightarrow> well_typed i" "\<forall>i\<in>set line_items. has_both i"
  then have "\<forall>i\<in>set line_items. good i" by (simp add: good_def)
  from room_loop_good[OF this totals_inv_Nil]
  show "\<exists>m. calculate_room_totals line_items = Inr m"
    by (auto simp: calculate_room_totals_def)
qed

theorem calculate_room_totals_key_error_witness:
  "well_typed [(''room'', PStr ''Hall''), (''amount'', PInt 1000)]
   \<and> has_both [(''room'', PStr ''Hall''), (''amount'', PInt 1000)]
   \<and> \<not> has_both [(''room'', PStr ''Hall'')]
   \<and> calculate_room_totals [[(''room'', PStr ''Hall''), (''amount'', PInt 1000)], [(''room'', PStr ''Hall'')]]
       = Inl KeyError
   \<and> (\<exists>m. calculate_room_totals [[(''room'', PStr ''Hall''), (''amount'', PInt 1000)]] = Inr m)"
  using calculate_room_totals_key_error
          [of "[[(''room'', PStr ''Hall''), (''amount'', PInt 1000)], [(''room'', PStr ''Hall'')]]"]
        calculate_room_totals_key_error
          [of "[[(''room'', PStr ''Hall''), (''amount'', PInt 1000)]]"]
  by (simp add: well_typed_def has_both_def)

subsection \<open>Item amounts\<close>

lemma material_step_none:
  "no_material_selected item \<Longrightarrow> material_step item uom l h q b = Inr b"
  by (auto simp: no_material_selected_def material_step_def split: option.splits pyval.splits)

lemma add_on_loop_unselected:
  "list_all unselected d \<Longrightarrow> add_on_loop uom l h q d c = Inr c"
proof (induction d arbitrary: c)
  case Nil then show ?case by simp
next
  case (Cons e d)
  obtain n info where e: "e = (n, info)" by (cases e)
  with Cons.prems obtain i where "info = PDict i" "\<not> truthy (dict_get i ''selected'' (PBool False))"
    by (cases info) auto
  with Cons e show ?case by simp
qed

lemma add_on_step_none:
  "no_add_ons item \<Longrightarrow> add_on_step item uom l h q = Inr 0"
  by (auto simp: no_add_ons_def add_on_step_def add_on_loop_unselected split: option.splits pyval.splits)

lemma float_field_falsy:
  "\<not> truthy (dict_get item k PNone) \<Longrightarrow> float_field item k = Inr 0"
  by (auto simp: float_field_def dict_get_def py_or_def split: option.splits)






lemma numeric_like_float:
  "numeric_like v \<Longrightarrow> \<exists>r. py_float (py_or v (PInt 0)) = Inr r"
  by (cases v) (auto simp: py_or_def split: sum.splits)

lemma float_field_ok:
  "numeric_like (dict_get item k PNone) \<Longrightarrow> \<exists>r. float_field item k = Inr r"
proof (cases "map_of item k")
  case None
  then show ?thesis by (simp add: float_field_def dict_get_def py_or_def)
next
  case (Some v)
  assume "numeric_like (dict_get item k PNone)"
  with Some have "numeric_like v" by (simp add: dict_get_def)
  from numeric_like_float[OF this] show ?thesis using Some by (simp add: float_field_def dict_get_def)
qed

lemma mul_float_num: "num_of p \<noteq> None \<Longrightarrow> \<exists>x. mul_float p f = Inr x"
  by (cases p) auto

lemma material_step_ok:
  assumes "material_ok item"
  shows "\<exists>t. material_step item uom l h q b = Inr t"
proof (cases "map_of item ''material''")
  case None
  then show ?thesis by (simp add: material_step_def)
next
  case (Some mv)
  with assms obtain m where m: "mv = PDict m"
    by (cases mv) (auto simp: material_ok_def)
  show ?thesis
  proof (cases "truthy (dict_get m ''selected'' PNone)")
    case False
    then show ?thesis using Some m by (simp add: material_step_def)
  next
    case True
    with assms Some m obtain s pa where s: "dict_get m ''selected'' PNone = PStr s" "s \<noteq> []"
      "dict_get m ''price_additions'' (PDict []) = PDict pa"
      "case map_of pa s of None \<Rightarrow> True | Some p \<Rightarrow> num_of p \<noteq> None"
      by (auto simp: material_ok_def split: pyval.splits)
    show ?thesis
    proof (cases "map_of pa s")
      case None
      then have "s \<notin> fst ` set pa" by (simp add: map_of_eq_None_iff)
      then show ?thesis using Some m s by (simp add: material_step_def)
    next
      case (Some p)
      then have in_pa: "s \<in> fst ` set pa" by (metis map_of_eq_None_iff option.distinct(1))
      from Some s(4) have "num_of p \<noteq> None" by simp
      from mul_float_num[OF this] obtain x y where "mul_float p l = Inr x" "mul_float p q = Inr y"
        by blast
      then show ?thesis using \<open>map_of item ''material'' = Some mv\<close> m s Some in_pa
        by (simp add: material_step_def)
    qed
  qed
qed

lemma add_on_loop_ok:
  "list_all add_on_ok d \<Longrightarrow> \<exists>c'. add_on_loop uom l h q d c = Inr c'"
proof (induction d arbitrary: c)
  case Nil then show ?case by simp
next
  case (Cons e d)
  obtain n info where e: "e = (n, info)" by (cases e)
  with Cons.prems obtain i where i: "info = PDict i"
    "\<not> truthy (dict_get i ''selected'' (PBool False)) \<or> numeric_like (dict_get i ''rate_per_unit'' PNone)"
    by (cases info) auto
  from Cons.prems have rest: "list_all add_on_ok d" by simp
  show ?case
  proof (cases "truthy (dict_get i ''selected'' (PBool False))")
    case False
    then show ?thesis using e i Cons.IH[OF rest] by simp
  next
    case True
    with i(2) have "numeric_like (dict_get i ''rate_per_unit'' PNone)" by simp
    from float_field_ok[OF this] obtain r where "float_field i ''rate_per_unit'' = Inr r" by blast
    then show ?thesis using e i True Cons.IH[OF rest] by (simp add: float_field_def)
  qed
qed

lemma add_on_step_ok:
  "add_ons_ok item \<Longrightarrow> \<exists>c. add_on_step item uom l h q = Inr c"
  by (auto simp: add_ons_ok_def add_on_step_def add_on_loop_ok split: option.splits pyval.splits)

lemma calculate_item_amount_returns:
  assumes "line_item_shaped item"
  shows "\<exists>v. calculate_item_amount item = Inr v"
proof -
  from assms obtain l h q r where f: "float_field item ''length'' = Inr l"
    "float_field item ''height'' = Inr h" "float_field item ''quantity'' = Inr q"
    "float_field item ''rate'' = Inr r"
    unfolding line_item_shaped_def using float_field_ok by metis
  from assms have "material_ok item" "add_ons_ok item" by (simp_all add: line_item_shaped_def)
  from material_step_ok[OF this(1)] add_on_step_ok[OF this(2)]
  show ?thesis using f
    by (simp add: calculate_item_amount_def Let_def) (metis sum.simps(6))
qed

lemma float_field_delete:
  "k \<noteq> k' \<Longrightarrow> float_field (AList.delete k' item) k = float_field item k"
  by (simp add: float_field_def dict_get_def)

lemma dict_get_delete:
  "k \<noteq> k' \<Longrightarrow> dict_get (AList.delete k' item) k d = dict_get item k d"
  by (simp add: dict_get_def)

lemma material_step_delete_material:
  "material_step (AList.delete ''material'' item) uom l h q b = Inr b"
  by (simp add: material_step_def delete_conv')


lemma add_on_step_delete_material:
  "add_on_step (AList.delete ''material'' item) uom l h q = add_on_step item uom l h q"
  by (simp add: add_on_step_def)


lemma mul_float_val: "num_of pv = Some p \<Longrightarrow> mul_float pv f = Inr (p * f)"
  by (cases pv) auto

lemma calculate_item_amount_parts:
  assumes "float_field item ''length'' = Inr l"
    and "float_field item ''height'' = Inr h"
    and "float_field item ''quantity'' = Inr q"
    and "float_field item ''rate'' = Inr r"
  shows "calculate_item_amount item =
     (case material_step item (dict_get item ''uom'' (PStr ''NOS'')) l h q
             (base_quantity_factor (dict_get item ''uom'' (PStr ''NOS'')) l h * q * r) of
        Inl e \<Rightarrow> Inl e
      | Inr t \<Rightarrow> (case add_on_step item (dict_get item ''uom'' (PStr ''NOS'')) l h q of
                    Inl e \<Rightarrow> Inl e
                  | Inr c \<Rightarrow> Inr (t + c)))"
  using assms by (simp add: calculate_item_amount_def Let_def base_quantity_factor_def)

lemma calculate_item_amount_rate:
  assumes "calculate_item_amount item = Inr a"
  obtains l h q r where "float_field item ''length'' = Inr l" "float_field item ''height'' = Inr h"
    "float_field item ''quantity'' = Inr q" "float_field item ''rate'' = Inr r"
  using assms by (auto simp: calculate_item_amount_def Let_def split: sum.splits)

lemma material_step_selected:
  assumes "map_of item ''material'' = Some (PDict m)"
    and "dict_get m ''selected'' PNone = PStr s" and "s \<noteq> []"
    and "dict_get m ''price_additions'' (PDict []) = PDict pa"
  shows "material_step item uom l h q b =
           (case map_of pa s of
              None \<Rightarrow> Inr b
            | Some pv \<Rightarrow>
                (if uom = PStr ''SFT'' then
                   (case mul_float pv l of Inl e \<Rightarrow> Inl e | Inr x \<Rightarrow> Inr (b + x * h * q))
                 else if uom = PStr ''RFT'' then
                   (case mul_float pv l of Inl e \<Rightarrow> Inl e | Inr x \<Rightarrow> Inr (b + x * q))
                 else (case mul_float pv q of Inl e \<Rightarrow> Inl e | Inr x \<Rightarrow> Inr (b + x))))"
proof (cases "map_of pa s")
  case None
  then have "s \<notin> fst ` set pa" by (simp add: map_of_eq_None_iff)
  then show ?thesis using assms None by (simp add: material_step_def)
next
  case (Some pv)
  then have "s \<in> fst ` set pa" by (metis map_of_eq_None_iff option.distinct(1))
  then show ?thesis using assms Some by (simp add: material_step_def)
qed



lemma float_field_rejected:
  assumes "dict_get item k PNone = PStr s" "s \<noteq> []" "float_of_str s = Inl ValueError"
  shows "float_field item k = Inl ValueError"
  using assms by (auto simp: float_field_def dict_get_def py_or_def split: option.splits)

lemma calculate_item_amount_field_error:
  assumes "k \<in> {''length'', ''height'', ''quantity'', ''rate''}" "float_field item k = Inl e"
  shows "\<exists>e'. calculate_item_amount item = Inl e'"
  using assms by (auto simp: calculate_item_amount_def Let_def split: sum.splits)

text \<open>
  C2. Take an item whose four numeric fields read as \<open>l\<close>, \<open>h\<close>, \<open>q\<close>, \<open>r\<close> (length,
  height, quantity, rate), with no material selected and no add-ons. Then
  \<^verbatim>\<open>calculate_item_amount\<close> returns \<open>l * h * q * r\<close> when the unit is \<^verbatim>\<open>SFT\<close>,
  \<open>l * q * r\<close> when it is \<^verbatim>\<open>RFT\<close>, and \<open>q * r\<close> when it is \<^verbatim>\<open>NOS\<close>, missing, or any
  other value.
\<close>

theorem calculate_item_amount_base:
  assumes "float_field item ''length'' = Inr l"
    and "float_field item ''height'' = Inr h"
    and "float_field item ''quantity'' = Inr q"
    and "float_field item ''rate'' = Inr r"
    and "no_material_selected item"
    and "no_add_ons item"
  shows "calculate_item_amount item =
           Inr (if dict_get item ''uom'' (PStr ''NOS'') = PStr ''SFT'' then l * h * q * r
                else if dict_get item ''uom'' (PStr ''NOS'') = PStr ''RFT'' then l * q * r
                else q * r)"
  using assms
  by (simp add: calculate_item_amount_def Let_def material_step_none add_on_step_none)

theorem calculate_item_amount_base_witness:
  "float_field [(''uom'', PStr ''SFT''), (''length'', PInt 10), (''height'', PInt 8), (''quantity'', PInt 1), (''rate'', PInt 150)] ''length'' = Inr 10
   \<and> float_field [(''uom'', PStr ''SFT''), (''length'', PInt 10), (''height'', PInt 8), (''quantity'', PInt 1), (''rate'', PInt 150)] ''height'' = Inr 8
   \<and> float_field [(''uom'', PStr ''SFT''), (''length'', PInt 10), (''height'', PInt 8), (''quantity'', PInt 1), (''rate'', PInt 150)] ''quantity'' = Inr 1
   \<and> float_field [(''uom'', PStr ''SFT''), (''length'', PInt 10), (''height'', PInt 8), (''quantity'', PInt 1), (''rate'', PInt 150)] ''rate'' = Inr 150
   \<and> no_material_selected [(''uom'', PStr ''SFT''), (''length'', PInt 10), (''height'', PInt 8), (''quantity'', PInt 1), (''rate'', PInt 150)]
   \<and> no_add_ons [(''uom'', PStr ''SFT''), (''length'', PInt 10), (''height'', PInt 8), (''quantity'', PInt 1), (''rate'', PInt 150)]
   \<and> calculate_item_amount [(''uom'', PStr ''SFT''), (''length'', PInt 10), (''height'', PInt 8), (''quantity'', PInt 1), (''rate'', PInt 150)]
       = Inr 12000
   \<and> calculate_item_amount [(''uom'', PStr ''RFT''), (''length'', PInt 20), (''quantity'', PInt 2), (''rate'', PInt 80)]
       = Inr 3200
   \<and> calculate_item_amount [(''uom'', PStr ''LS''), (''length'', PInt 20), (''height'', PInt 3), (''quantity'', PInt 2), (''rate'', PInt 80)]
       = Inr 160"
  using calculate_item_amount_base
          [of "[(''uom'', PStr ''SFT''), (''length'', PInt 10), (''height'', PInt 8), (''quantity'', PInt 1), (''rate'', PInt 150)]"
              10 8 1 150]
        calculate_item_amount_base
          [of "[(''uom'', PStr ''RFT''), (''length'', PInt 20), (''quantity'', PInt 2), (''rate'', PInt 80)]"
              20 0 2 80]
        calculate_item_amount_base
          [of "[(''uom'', PStr ''LS''), (''length'', PInt 20), (''height'', PInt 3), (''quantity'', PInt 2), (''rate'', PInt 80)]"
              20 3 2 80]
  by (simp add: float_field_def dict_get_def py_or_def no_material_selected_def no_add_ons_def)

text \<open>
  C1 as the specification states it does not hold: a non-empty string that is no number
  is not coerced to \<open>0\<close>; \<^verbatim>\<open>float\<close> raises ValueError and nothing in
  \<^verbatim>\<open>calculate_item_amount\<close> catches it.
\<close>

theorem calculate_item_amount_raises_counterexample:
  "calculate_item_amount [(''uom'', PStr ''NOS''), (''quantity'', PStr ''abc''), (''rate'', PInt 100)]
     = Inl ValueError"
  by code_simp

text \<open>
  C1, amended. For every line-item-shaped record in which each of length, height,
  quantity, rate and the \<^verbatim>\<open>rate_per_unit\<close> of every selected add-on is missing, falsy
  (\<^verbatim>\<open>None\<close>, \<open>0\<close>, the empty string), a number, or a string that spells a finite decimal
  number, \<^verbatim>\<open>calculate_item_amount\<close> raises nothing and returns a number; a missing or
  falsy field is read as \<open>0\<close>. A non-empty string that \<^verbatim>\<open>float\<close> rejects in one of the
  four fields is not coerced: the call raises.
\<close>

theorem calculate_item_amount_no_raise:
  "(line_item_shaped item \<longrightarrow> (\<exists>v. calculate_item_amount item = Inr v))
   \<and> (\<forall>d k. \<not> truthy (dict_get d k PNone) \<longrightarrow> float_field d k = Inr 0)
   \<and> (\<forall>k s. k \<in> {''length'', ''height'', ''quantity'', ''rate''}
          \<and> dict_get item k PNone = PStr s \<and> s \<noteq> [] \<and> float_of_str s = Inl ValueError
          \<longrightarrow> (\<exists>e. calculate_item_amount item = Inl e))"
  using calculate_item_amount_returns float_field_falsy
    calculate_item_amount_field_error float_field_rejected
  by blast

theorem calculate_item_amount_no_raise_witness:
  "line_item_shaped
     [(''uom'', PStr ''SFT''), (''length'', PStr ''10''), (''height'', PInt 8), (''quantity'', PFloat 1),
      (''rate'', PStr ''''),
      (''add_ons'', PDict [(''Lights'', PDict [(''selected'', PBool True), (''rate_per_unit'', PStr ''250'')]),
                           (''Profile Door'', PDict [(''selected'', PBool True)])])]
   \<and> calculate_item_amount
     [(''uom'', PStr ''SFT''), (''length'', PStr ''10''), (''height'', PInt 8), (''quantity'', PFloat 1),
      (''rate'', PStr ''''),
      (''add_ons'', PDict [(''Lights'', PDict [(''selected'', PBool True), (''rate_per_unit'', PStr ''250'')]),
                           (''Profile Door'', PDict [(''selected'', PBool True)])])]
     = Inr 20000
   \<and> float_field
     [(''uom'', PStr ''SFT''), (''length'', PStr ''10''), (''height'', PInt 8), (''quantity'', PFloat 1),
      (''rate'', PStr ''''),
      (''add_ons'', PDict [(''Lights'', PDict [(''selected'', PBool True), (''rate_per_unit'', PStr ''250'')]),
                           (''Profile Door'', PDict [(''selected'', PBool True)])])] ''rate'' = Inr 0
   \<and> float_of_str ''abc'' = Inl ValueError
   \<and> (\<exists>e. calculate_item_amount [(''uom'', PStr ''NOS''), (''quantity'', PStr ''abc''), (''rate'', PInt 100)]
          = Inl e)"
proof -
  let ?item = "[(''uom'', PStr ''SFT''), (''length'', PStr ''10''), (''height'', PInt 8), (''quantity'', PFloat 1),
      (''rate'', PStr ''''),
      (''add_ons'', PDict [(''Lights'', PDict [(''selected'', PBool True), (''rate_per_unit'', PStr ''250'')]),
                           (''Profile Door'', PDict [(''selected'', PBool True)])])]"
  let ?bad = "[(''uom'', PStr ''NOS''), (''quantity'', PStr ''abc''), (''rate'', PInt 100)]"
  have a: "line_item_shaped ?item" by code_simp
  have b: "calculate_item_amount ?item = Inr 20000" by code_simp
  have c: "\<not> truthy (dict_get ?item ''rate'' PNone)" by (simp add: dict_get_def)
  have d: "float_of_str ''abc'' = Inl ValueError" by code_simp
  have e: "dict_get ?bad ''quantity'' PNone = PStr ''abc''" by (simp add: dict_get_def)
  from calculate_item_amount_no_raise[of ?item] a c
  have 1: "\<exists>v. calculate_item_amount ?item = Inr v" "float_field ?item ''rate'' = Inr 0"
    by blast+
  from calculate_item_amount_no_raise[of ?bad] d e
  have 2: "\<exists>e. calculate_item_amount ?bad = Inl e" by blast
  show ?thesis using a b 1 2 d by blast
qed



text \<open>
  C4. Take an item whose material block selects a non-empty name \<open>s\<close> and carries a
  \<^verbatim>\<open>price_additions\<close> mapping, and let \<open>a\<close> be the amount of the same item without the
  material block. If \<open>s\<close> is a key of \<^verbatim>\<open>price_additions\<close> with a numeric surcharge \<open>p\<close>,
  the amount is exactly \<open>a + p * f * q\<close>, where \<open>f\<close> is the base quantity factor
  (\<open>l * h\<close> for \<^verbatim>\<open>SFT\<close>) and \<open>q\<close> the quantity. If \<open>s\<close> is no key of \<^verbatim>\<open>price_additions\<close>,
  the amount is \<open>a\<close>.
\<close>

theorem material_surcharge:
  assumes "map_of item ''material'' = Some (PDict m)"
    and "dict_get m ''selected'' PNone = PStr s" and "s \<noteq> []"
    and "dict_get m ''price_additions'' (PDict []) = PDict pa"
    and "float_field item ''length'' = Inr l"
    and "float_field item ''height'' = Inr h"
    and "float_field item ''quantity'' = Inr q"
    and "calculate_item_amount (AList.delete ''material'' item) = Inr a"
  shows "(\<forall>pv p. map_of pa s = Some pv \<and> num_of pv = Some p \<longrightarrow>
            calculate_item_amount item =
              Inr (a + p * base_quantity_factor (dict_get item ''uom'' (PStr ''NOS'')) l h * q))
       \<and> (map_of pa s = None \<longrightarrow> calculate_item_amount item = Inr a)"
proof -
  define uom where "uom = dict_get item ''uom'' (PStr ''NOS'')"
  let ?d = "AList.delete ''material'' item"
  from assms(8) obtain l' h' q' r where
    f': "float_field ?d ''length'' = Inr l'" "float_field ?d ''height'' = Inr h'"
        "float_field ?d ''quantity'' = Inr q'" "float_field ?d ''rate'' = Inr r"
    by (rule calculate_item_amount_rate)
  then have r: "float_field item ''rate'' = Inr r" by (simp add: float_field_delete)
  have fd: "float_field ?d ''length'' = Inr l" "float_field ?d ''height'' = Inr h"
    "float_field ?d ''quantity'' = Inr q" "float_field ?d ''rate'' = Inr r"
    using assms(5-7) r by (simp_all add: float_field_delete)
  let ?b = "base_quantity_factor uom l h * q * r"
  from assms(8) obtain c where c: "add_on_step item uom l h q = Inr c" "a = ?b + c"
    unfolding calculate_item_amount_parts[OF fd] uom_def
    by (auto simp: material_step_delete_material add_on_step_delete_material dict_get_delete
        split: sum.splits)
  note ms = material_step_selected[OF assms(1-4), of uom l h q ?b]
  note parts = calculate_item_amount_parts[OF assms(5-7) r, folded uom_def]
  have 1: "calculate_item_amount item = Inr (a + p * base_quantity_factor uom l h * q)"
    if "map_of pa s = Some pv" "num_of pv = Some p" for pv p
  proof -
    have "material_step item uom l h q ?b = Inr (?b + p * base_quantity_factor uom l h * q)"
      unfolding ms using that
      by (simp add: mul_float_val base_quantity_factor_def)
    then show ?thesis unfolding parts using c by simp
  qed
  have 2: "calculate_item_amount item = Inr a" if "map_of pa s = None"
    unfolding parts ms using that c by simp
  from 1 2 show ?thesis unfolding uom_def by blast
qed

theorem material_surcharge_witness:
  "map_of [(''uom'', PStr ''SFT''), (''length'', PInt 10), (''height'', PInt 8), (''quantity'', PInt 2),
           (''rate'', PInt 150),
           (''material'', PDict [(''selected'', PStr ''Veneer''),
              (''price_additions'', PDict [(''Laminate'', PInt 0), (''Veneer'', PInt 500)])])]
      ''material''
     = Some (PDict [(''selected'', PStr ''Veneer''),
              (''price_additions'', PDict [(''Laminate'', PInt 0), (''Veneer'', PInt 500)])])
   \<and> calculate_item_amount
        (AList.delete ''material''
          [(''uom'', PStr ''SFT''), (''length'', PInt 10), (''height'', PInt 8), (''quantity'', PInt 2),
           (''rate'', PInt 150),
           (''material'', PDict [(''selected'', PStr ''Veneer''),
              (''price_additions'', PDict [(''Laminate'', PInt 0), (''Veneer'', PInt 500)])])])
     = Inr 24000
   \<and> calculate_item_amount
          [(''uom'', PStr ''SFT''), (''length'', PInt 10), (''height'', PInt 8), (''quantity'', PInt 2),
           (''rate'', PInt 150),
           (''material'', PDict [(''selected'', PStr ''Veneer''),
              (''price_additions'', PDict [(''Laminate'', PInt 0), (''Veneer'', PInt 500)])])]
     = Inr (24000 + 500 * (10 * 8) * 2)
   \<and> calculate_item_amount
          [(''uom'', PStr ''SFT''), (''length'', PInt 10), (''height'', PInt 8), (''quantity'', PInt 2),
           (''rate'', PInt 150),
           (''material'', PDict [(''selected'', PStr ''Oak''),
              (''price_additions'', PDict [(''Laminate'', PInt 0), (''Veneer'', PInt 500)])])]
     = Inr 24000"
proof -
  let ?pa = "[(''Laminate'', PInt 0), (''Veneer'', PInt 500)]"
  let ?m = "[(''selected'', PStr ''Veneer''), (''price_additions'', PDict ?pa)]"
  let ?m2 = "[(''selected'', PStr ''Oak''), (''price_additions'', PDict ?pa)]"
  let ?item = "[(''uom'', PStr ''SFT''), (''length'', PInt 10), (''height'', PInt 8), (''quantity'', PInt 2),
           (''rate'', PInt 150), (''material'', PDict ?m)]"
  let ?item2 = "[(''uom'', PStr ''SFT''), (''length'', PInt 10), (''height'', PInt 8), (''quantity'', PInt 2),
           (''rate'', PInt 150), (''material'', PDict ?m2)]"
  have h1: "map_of ?item ''material'' = Some (PDict ?m)" by simp
  have h2: "dict_get ?m ''selected'' PNone = PStr ''Veneer''" by (simp add: dict_get_def)
  have h3: "''Veneer'' \<noteq> []" by simp
  have h4: "dict_get ?m ''price_additions'' (PDict []) = PDict ?pa" by (simp add: dict_get_def)
  have h5: "float_field ?item ''length'' = Inr 10" by (simp add: float_field_def dict_get_def py_or_def)
  have h6: "float_field ?item ''height'' = Inr 8" by (simp add: float_field_def dict_get_def py_or_def)
  have h7: "float_field ?item ''quantity'' = Inr 2" by (simp add: float_field_def dict_get_def py_or_def)
  have h8: "calculate_item_amount (AList.delete ''material'' ?item) = Inr 24000" by code_simp
  have g1: "map_of ?item2 ''material'' = Some (PDict ?m2)" by simp
  have g2: "dict_get ?m2 ''selected'' PNone = PStr ''Oak''" by (simp add: dict_get_def)
  have g3: "''Oak'' \<noteq> []" by simp
  have g4: "dict_get ?m2 ''price_additions'' (PDict []) = PDict ?pa" by (simp add: dict_get_def)
  have g5: "float_field ?item2 ''length'' = Inr 10" by (simp add: float_field_def dict_get_def py_or_def)
  have g6: "float_field ?item2 ''height'' = Inr 8" by (simp add: float_field_def dict_get_def py_or_def)
  have g7: "float_field ?item2 ''quantity'' = Inr 2" by (simp add: float_field_def dict_get_def py_or_def)
  have g8: "calculate_item_amount (AList.delete ''material'' ?item2) = Inr 24000" by code_simp
  have a: "calculate_item_amount ?item = Inr (24000 + 500 * (10 * 8) * 2)"
    using material_surcharge[OF h1 h2 h3 h4 h5 h6 h7 h8]
    by (simp add: base_quantity_factor_def dict_get_def)
  have b: "calculate_item_amount ?item2 = Inr 24000"
    using material_surcharge[OF g1 g2 g3 g4 g5 g6 g7 g8] by simp
  show ?thesis using h1 h8 a b by blast
qed




subsection \<open>Price strings\<close>

lemma float_of_str_cases:
  "(\<exists>r. float_of_str t = Inr r) \<or> float_of_str t = Inl ValueError \<or> float_of_str t = Inl NonFinite"
  by (auto simp: float_of_str_def Let_def split: prod.splits option.splits)

lemma price_loop_spec:
  assumes "\<not> list_ex non_finite_price segs"
  shows "\<exists>m. price_loop segs pm = Inr m
             \<and> map_of m = map_of (rev (List.map_filter well_formed_pair segs) @ pm)"
  using assms
proof (induction segs arbitrary: pm)
  case Nil
  then show ?case by (simp add: List.map_filter_simps)
next
  case (Cons seg rest)
  then have nf: "\<not> non_finite_price seg" and rest: "\<not> list_ex non_finite_price rest" by simp_all
  show ?case
  proof (cases "CHR '':'' \<in> set seg")
    case False
    then show ?thesis using Cons.IH[OF rest, of pm]
      by (simp add: well_formed_pair_def List.map_filter_simps)
  next
    case True
    let ?t = "strip (snd (split_first CHR '':'' seg))"
    let ?n = "strip (fst (split_first CHR '':'' seg))"
    from float_of_str_cases[of ?t] nf True
    consider r where "float_of_str ?t = Inr r" | "float_of_str ?t = Inl ValueError"
      by (auto simp: non_finite_price_def)
    then show ?thesis
    proof cases
      case 1
      from Cons.IH[OF rest, of "AList.update ?n (PFloat r) pm"]
      obtain m where m: "price_loop rest (AList.update ?n (PFloat r) pm) = Inr m"
        "map_of m = map_of (rev (List.map_filter well_formed_pair rest) @ AList.update ?n (PFloat r) pm)"
        by blast
      have "price_loop (seg # rest) pm = Inr m"
        using True 1 m(1) by (simp add: split_beta)
      moreover have "map_of m = map_of (rev (List.map_filter well_formed_pair (seg # rest)) @ pm)"
        using True 1 m(2)
        by (simp add: well_formed_pair_def List.map_filter_simps update_conv' map_add_def fun_eq_iff
            split: option.splits)
      ultimately show ?thesis by blast
    next
      case 2
      then show ?thesis using True Cons.IH[OF rest, of pm]
        by (simp add: well_formed_pair_def List.map_filter_simps split_beta)
    qed
  qed
qed

text \<open>
  C8. \<^verbatim>\<open>parse_price_mapping\<close> splits its input on commas and each segment on its first
  colon, trims name and price, drops every segment that is no well-formed
  \<^verbatim>\<open>name:number\<close> pair and keeps every well-formed one: the result maps exactly the names
  of the well-formed segments, each to the price of its last well-formed segment, and no
  error is raised (for a string none of whose prices is spelled \<^verbatim>\<open>inf\<close> or \<^verbatim>\<open>nan\<close>). In
  particular \<^verbatim>\<open>parse_price_mapping("bad,Lights:250")\<close> is \<^verbatim>\<open>{"Lights": 250.0}\<close>.
\<close>

theorem parse_price_mapping_drops_malformed:
  "(\<not> list_ex non_finite_price (split_on CHR '','' s) \<longrightarrow>
      (\<exists>m. parse_price_mapping (PStr s) = Inr m
           \<and> map_of m = map_of (rev (well_formed_pairs s))
           \<and> fst ` set m = fst ` set (well_formed_pairs s)))
   \<and> parse_price_mapping (PStr ''bad,Lights:250'') = Inr [(''Lights'', PFloat 250)]"
proof (intro conjI impI)
  assume nf: "\<not> list_ex non_finite_price (split_on CHR '','' s)"
  show "\<exists>m. parse_price_mapping (PStr s) = Inr m
           \<and> map_of m = map_of (rev (well_formed_pairs s))
           \<and> fst ` set m = fst ` set (well_formed_pairs s)"
  proof (cases "s = []")
    case True
    then show ?thesis
      by (simp add: well_formed_pairs_def well_formed_pair_def List.map_filter_simps)
  next
    case False
    from price_loop_spec[OF nf, of "[]"] obtain m where
      m: "price_loop (split_on CHR '','' s) [] = Inr m"
         "map_of m = map_of (rev (well_formed_pairs s))"
      by (auto simp: well_formed_pairs_def)
    have "dom (map_of m) = dom (map_of (rev (well_formed_pairs s)))" using m(2) by simp
    then have "fst ` set m = fst ` set (well_formed_pairs s)" by (simp add: dom_map_of_conv_image_fst)
    then show ?thesis using False m by simp
  qed
next
  show "parse_price_mapping (PStr ''bad,Lights:250'') = Inr [(''Lights'', PFloat 250)]"
    by code_simp
qed

theorem parse_price_mapping_drops_malformed_witness:
  "\<not> list_ex non_finite_price (split_on CHR '','' ''bad, Lights : 250 ,x:1.5e1,Lights:abc,:3'')
   \<and> well_formed_pairs ''bad, Lights : 250 ,x:1.5e1,Lights:abc,:3''
       = [(''Lights'', PFloat 250), (''x'', PFloat 15), ('''', PFloat 3)]
   \<and> (\<exists>m. parse_price_mapping (PStr ''bad, Lights : 250 ,x:1.5e1,Lights:abc,:3'') = Inr m
         \<and> map_of m = map_of (rev [(''Lights'', PFloat 250), (''x'', PFloat 15), ('''', PFloat 3)]))"
proof -
  let ?s = "''bad, Lights : 250 ,x:1.5e1,Lights:abc,:3''"
  have a: "\<not> list_ex non_finite_price (split_on CHR '','' ?s)" by code_simp
  have b: "well_formed_pairs ?s = [(''Lights'', PFloat 250), (''x'', PFloat 15), ('''', PFloat 3)]"
    by code_simp
  from parse_price_mapping_drops_malformed[of ?s] a
  have "\<exists>m. parse_price_mapping (PStr ?s) = Inr m \<and> map_of m = map_of (rev (well_formed_pairs ?s))"
    by blast
  then show ?thesis using a b by simp
qed

subsection \<open>Material options\<close>

text \<open>Where the base name is listed once, its surcharge stays \<open>0\<close> whatever
  \<^verbatim>\<open>material_prices\<close> says.\<close>

lemma option_loop_other:
  "base \<notin> set others \<Longrightarrow>
     map_of (option_loop others material_prices pa) base = map_of pa base"
  by (induction others arbitrary: pa) (auto simp: update_conv' split: option.splits)

lemma base_material_zero_when_listed_once:
  assumes "map_of rate_card_item ''material_options'' = Some (PStr s)" and "s \<noteq> []"
    and "map strip (split_on CHR '','' s) = base # others"
    and "base \<notin> set others"
    and "get_material_options_from_rate_card rate_card_item = Inr res"
  shows "\<exists>pa. map_of res ''price_additions'' = Some (PDict pa) \<and> map_of pa base = Some (PInt 0)"
  using assms
  by (auto simp: get_material_options_from_rate_card_def material_result_def option_loop_other
      split: if_splits option.splits sum.splits)

text \<open>
  C3. The first listed option is meant to keep the surcharge \<open>0\<close> (the source says
  ``Base material has no additional cost'' and skips it by position), but the loop over
  the remaining options assigns by name: when the base name occurs again later in
  \<^verbatim>\<open>material_options\<close>, its entry is overwritten. For
  \<^verbatim>\<open>material_options = "Laminate, Veneer, Laminate"\<close> and
  \<^verbatim>\<open>material_prices = "Laminate:100"\<close> the base material ends with surcharge \<open>100\<close>, and
  an item that selects it costs \<open>20000\<close> where the same item without a material costs
  \<open>12000\<close>.
\<close>

theorem base_material_surcharge_overwritten:
  "get_material_options_from_rate_card
     [(''material_options'', PStr ''Laminate, Veneer, Laminate''),
      (''material_prices'', PStr ''Laminate:100'')]
     = Inr [(''options'', PList [''Laminate'', ''Veneer'', ''Laminate'']),
            (''base_material'', PStr ''Laminate''),
            (''price_additions'', PDict [(''Laminate'', PFloat 100), (''Veneer'', PInt 500)])]
   \<and> calculate_item_amount
       [(''uom'', PStr ''SFT''), (''length'', PInt 10), (''height'', PInt 8), (''quantity'', PInt 1),
        (''rate'', PInt 150),
        (''material'', PDict [(''options'', PList [''Laminate'', ''Veneer'', ''Laminate'']),
            (''base_material'', PStr ''Laminate''),
            (''price_additions'', PDict [(''Laminate'', PFloat 100), (''Veneer'', PInt 500)]),
            (''selected'', PStr ''Laminate'')])]
     = Inr 20000
   \<and> calculate_item_amount
       [(''uom'', PStr ''SFT''), (''length'', PInt 10), (''height'', PInt 8), (''quantity'', PInt 1),
        (''rate'', PInt 150)]
     = Inr 12000"
  by code_simp

end
